theory Spec2Isabelle
  imports Complex_Main "HOL-Library.Sublist"
begin

section \<open>Strings and values of the handler\<close>

text \<open>
  The handler \<^verbatim>\<open>src/api/apply.js\<close> works on JavaScript strings, which are
  sequences of UTF-16 code units; \<^verbatim>\<open>length\<close>, the regular expressions (none has the
  \<^verbatim>\<open>u\<close> flag) and \<^verbatim>\<open>trim\<close> all count code units. A string is therefore a list
  of code units, each a natural number, and an ASCII literal of the source is written
  \<open>js ''...''\<close>.
\<close>

type_synonym jsstring = "nat list"

definition js :: "string \<Rightarrow> jsstring" where
  "js s = map of_char s"

text \<open>
  WhiteSpace and LineTerminator of ECMAScript: what \<^verbatim>\<open>String.prototype.trim\<close>
  removes and what \<^verbatim>\<open>\s\<close> matches. TAB, LF, VT, FF, CR, SP, NBSP, U+1680,
  U+2000..U+200A, U+2028, U+2029, U+202F, U+205F, U+3000, U+FEFF.
\<close>

definition is_ws :: "nat \<Rightarrow> bool" where
  "is_ws c = (c = 9 \<or> c = 10 \<or> c = 11 \<or> c = 12 \<or> c = 13 \<or> c = 32 \<or> c = 160
      \<or> c = 5760 \<or> (8192 \<le> c \<and> c \<le> 8202) \<or> c = 8232 \<or> c = 8233 \<or> c = 8239
      \<or> c = 8287 \<or> c = 12288 \<or> c = 65279)"

definition trim :: "jsstring \<Rightarrow> jsstring" where
  "trim s = rev (dropWhile is_ws (rev (dropWhile is_ws s)))"

text \<open>
  \<^verbatim>\<open>str.replace(/<[^>]*>/g, '')\<close>. The code units \<open>60\<close> and \<open>62\<close> are
  \<^verbatim>\<open><\<close> and \<^verbatim>\<open>>\<close>. At a \<^verbatim>\<open><\<close> the pattern matches when some \<^verbatim>\<open>>\<close>
  follows, up to and including the first one (\<^verbatim>\<open>[^>]*\<close> cannot cross a \<^verbatim>\<open>>\<close>);
  \<open>after_gt\<close> returns what follows that first \<^verbatim>\<open>>\<close>. The global replace
  deletes the match and goes on behind it; where the pattern does not match, the code
  unit is kept and the scan moves one position to the right.
\<close>

fun after_gt :: "jsstring \<Rightarrow> jsstring option" where
  "after_gt [] = None"
| "after_gt (c # cs) = (if c = 62 then Some cs else after_gt cs)"

lemma after_gt_shorter: "after_gt cs = Some r \<Longrightarrow> length r < length cs"
  by (induction cs) (auto split: if_splits)

function strip_tags :: "jsstring \<Rightarrow> jsstring" where
  "strip_tags [] = []"
| "strip_tags (c # cs) =
     (if c = 60 then
        (case after_gt cs of
           Some r \<Rightarrow> strip_tags r
         | None \<Rightarrow> c # strip_tags cs)
      else c # strip_tags cs)"
  by pat_completeness auto
termination
  by (relation "measure length") (auto dest: after_gt_shorter)

text \<open>
  \<^verbatim>\<open>/<[^>]*>/.test(s)\<close>: the string contains a substring matching the tag pattern.
\<close>

fun has_tag :: "jsstring \<Rightarrow> bool" where
  "has_tag [] = False"
| "has_tag (c # cs) = ((c = 60 \<and> after_gt cs \<noteq> None) \<or> has_tag cs)"

text \<open>No leading and no trailing whitespace.\<close>

definition trimmed :: "jsstring \<Rightarrow> bool" where
  "trimmed s = (s = [] \<or> (\<not> is_ws (hd s) \<and> \<not> is_ws (last s)))"

text \<open>
  JavaScript numbers are IEEE doubles. \<open>Approx r\<close> stands for the double nearest to the
  rational \<open>r\<close> (round to nearest, ties to even; an infinity when \<open>r\<close> is out of range),
  \<open>Inf neg\<close> for an infinity that was written as such. The handler never computes
  with a number, it only tests one for truthiness: the double nearest to \<open>r\<close> is a zero
  exactly when \<open>\<bar>r\<bar> \<le> 2 ^ -1075\<close>, half the least subnormal. Negative zero is not
  told apart from zero; the handler cannot tell them apart either.
\<close>

datatype jsnum = NaN | Inf bool | Approx rat

definition num_truthy :: "jsnum \<Rightarrow> bool" where
  "num_truthy n = (case n of NaN \<Rightarrow> False | Inf _ \<Rightarrow> True | Approx r \<Rightarrow> 1 / 2 ^ 1075 < \<bar>r\<bar>)"

text \<open>
  The values a request body holds after \<^verbatim>\<open>JSON.parse\<close>, and \<^verbatim>\<open>undefined\<close> for a
  property that is not there. An object is its list of own properties, each name
  once, as \<^verbatim>\<open>JSON.parse\<close> builds it.
\<close>

datatype jsval =
    JUndefined
  | JNull
  | JBool bool
  | JNum jsnum
  | JStr jsstring
  | JArr "jsval list"
  | JObj "(jsstring \<times> jsval) list"

fun truthy :: "jsval \<Rightarrow> bool" where
  "truthy JUndefined = False"
| "truthy JNull = False"
| "truthy (JBool b) = b"
| "truthy (JNum n) = num_truthy n"
| "truthy (JStr s) = (s \<noteq> [])"
| "truthy (JArr _) = True"
| "truthy (JObj _) = True"

text \<open>\<^verbatim>\<open>function stripHtml(str)\<close>\<close>

fun stripHtml :: "jsval \<Rightarrow> jsstring" where
  "stripHtml (JStr str) = trim (strip_tags str)"
| "stripHtml _ = []"

section \<open>Built-in conversions the handler relies on\<close>

text \<open>
  \<^verbatim>\<open>ToString\<close> of a value, as \<^verbatim>\<open>new URL(x)\<close> and \<^verbatim>\<open>Number(x)\<close> apply it to a
  value that is not a string. \<open>None\<close> is a thrown \<^verbatim>\<open>TypeError\<close>: an object parsed
  from JSON whose own property \<^verbatim>\<open>toString\<close> hides the inherited function has no callable
  conversion left (\<^verbatim>\<open>Object.prototype.valueOf\<close> returns the object itself). An array
  is joined with commas (code unit 44), \<^verbatim>\<open>undefined\<close> and \<^verbatim>\<open>null\<close> elements
  giving the empty string. The decimal rendering of a double is not modelled: it is the
  parameter \<open>num_str\<close>.
\<close>

fun to_string :: "(jsnum \<Rightarrow> jsstring) \<Rightarrow> jsval \<Rightarrow> jsstring option"
  and join_elems :: "(jsnum \<Rightarrow> jsstring) \<Rightarrow> jsval list \<Rightarrow> jsstring option" where
  "to_string num_str JUndefined = Some (js ''undefined'')"
| "to_string num_str JNull = Some (js ''null'')"
| "to_string num_str (JBool b) = Some (if b then js ''true'' else js ''false'')"
| "to_string num_str (JNum n) = Some (num_str n)"
| "to_string num_str (JStr s) = Some s"
| "to_string num_str (JArr xs) = join_elems num_str xs"
| "to_string num_str (JObj kvs) =
     (if js ''toString'' \<in> set (map fst kvs) then None else Some (js ''[object Object]''))"
| "join_elems num_str [] = Some []"
| "join_elems num_str (x # xs) =
     (case (if x = JUndefined \<or> x = JNull then Some [] else to_string num_str x) of
        None \<Rightarrow> None
      | Some a \<Rightarrow>
          if xs = [] then Some a
          else (case join_elems num_str xs of None \<Rightarrow> None | Some b \<Rightarrow> Some (a @ 44 # b)))"

text \<open>
  \<^verbatim>\<open>StringToNumber\<close> of ECMAScript: the string is trimmed; the empty string is 0; then
  either a hexadecimal, octal or binary integer literal without sign, or an optionally
  signed \<^verbatim>\<open>Infinity\<close> or decimal literal (digits, optional fraction, optional
  exponent). Anything else is \<^verbatim>\<open>NaN\<close>.
\<close>

definition digit_of :: "nat \<Rightarrow> nat option" where
  "digit_of c =
     (if 48 \<le> c \<and> c \<le> 57 then Some (c - 48)
      else if 97 \<le> c \<and> c \<le> 102 then Some (c - 87)
      else if 65 \<le> c \<and> c \<le> 70 then Some (c - 55)
      else None)"

definition is_digit_in :: "nat \<Rightarrow> nat \<Rightarrow> bool" where
  "is_digit_in b c = (case digit_of c of None \<Rightarrow> False | Some d \<Rightarrow> d < b)"

definition all_digits :: "nat \<Rightarrow> jsstring \<Rightarrow> bool" where
  "all_digits b s = (s \<noteq> [] \<and> list_all (is_digit_in b) s)"

definition value_in :: "nat \<Rightarrow> jsstring \<Rightarrow> nat" where
  "value_in b s = foldl (\<lambda>a c. a * b + (case digit_of c of None \<Rightarrow> 0 | Some d \<Rightarrow> d)) 0 s"

definition non_decimal :: "jsstring \<Rightarrow> nat option" where
  "non_decimal t =
     (case t of
        z # x # ds \<Rightarrow>
          if z \<noteq> 48 then None
          else if (x = 120 \<or> x = 88) \<and> all_digits 16 ds then Some (value_in 16 ds)
          else if (x = 111 \<or> x = 79) \<and> all_digits 8 ds then Some (value_in 8 ds)
          else if (x = 98 \<or> x = 66) \<and> all_digits 2 ds then Some (value_in 2 ds)
          else None
      | _ \<Rightarrow> None)"

definition strip_sign :: "jsstring \<Rightarrow> bool \<times> jsstring" where
  "strip_sign s =
     (case s of
        [] \<Rightarrow> (False, s)
      | c # r \<Rightarrow> if c = 43 then (False, r) else if c = 45 then (True, r) else (False, s))"

definition exponent_part :: "jsstring \<Rightarrow> int option" where
  "exponent_part r =
     (case r of
        [] \<Rightarrow> Some 0
      | c # r1 \<Rightarrow>
          if c = 101 \<or> c = 69 then
            (case strip_sign r1 of
               (neg, ds) \<Rightarrow>
                 if all_digits 10 ds
                 then Some (if neg then - int (value_in 10 ds) else int (value_in 10 ds))
                 else None)
          else None)"

definition pow10 :: "int \<Rightarrow> rat" where
  "pow10 e = (if 0 \<le> e then 10 ^ nat e else 1 / 10 ^ nat (- e))"

definition unsigned_decimal :: "jsstring \<Rightarrow> rat option" where
  "unsigned_decimal s =
     (let ip = takeWhile (is_digit_in 10) s;
          r1 = dropWhile (is_digit_in 10) s;
          fp = (case r1 of [] \<Rightarrow> [] | c # r \<Rightarrow> if c = 46 then takeWhile (is_digit_in 10) r else []);
          r2 = (case r1 of [] \<Rightarrow> [] | c # r \<Rightarrow> if c = 46 then dropWhile (is_digit_in 10) r else r1)
      in if ip = [] \<and> fp = [] then None
         else (case exponent_part r2 of
                 None \<Rightarrow> None
               | Some e \<Rightarrow> Some (of_nat (value_in 10 (ip @ fp)) * pow10 (e - int (length fp)))))"

definition string_to_number :: "jsstring \<Rightarrow> jsnum" where
  "string_to_number s =
     (let t = trim s in
      if t = [] then Approx 0
      else (case non_decimal t of
              Some n \<Rightarrow> Approx (of_nat n)
            | None \<Rightarrow>
                (case strip_sign t of
                   (neg, r) \<Rightarrow>
                     if r = js ''Infinity'' then Inf neg
                     else (case unsigned_decimal r of
                             None \<Rightarrow> NaN
                           | Some v \<Rightarrow> Approx (if neg then - v else v)))))"

text \<open>
  \<^verbatim>\<open>Number(x)\<close>, that is \<^verbatim>\<open>ToNumber\<close>; \<open>None\<close> is the \<^verbatim>\<open>TypeError\<close> of
  \<open>to_string\<close>, which the conversion of an array or an object goes through.
\<close>

definition Number :: "(jsnum \<Rightarrow> jsstring) \<Rightarrow> jsval \<Rightarrow> jsnum option" where
  "Number num_str v =
     (case v of
        JUndefined \<Rightarrow> Some NaN
      | JNull \<Rightarrow> Some (Approx 0)
      | JBool b \<Rightarrow> Some (Approx (if b then 1 else 0))
      | JNum n \<Rightarrow> Some n
      | JStr s \<Rightarrow> Some (string_to_number s)
      | _ \<Rightarrow> map_option string_to_number (to_string num_str v))"

text \<open>
  The start of the WHATWG URL parser, which \<^verbatim>\<open>new URL(input)\<close> runs without a base:
  leading and trailing C0 controls and spaces are removed, then every tab and newline;
  the scheme start state wants an ASCII letter, the scheme state reads letters, digits,
  \<^verbatim>\<open>+\<close>, \<^verbatim>\<open>-\<close> and \<^verbatim>\<open>.\<close> up to a colon (58); any other outcome leads to the
  no-scheme state, which fails when there is no base. So an input without a scheme never
  parses. What the parser decides after the scheme (host, port, path) is not modelled.
\<close>

definition c0_or_space :: "nat \<Rightarrow> bool" where
  "c0_or_space c = (c \<le> 32)"

definition tab_or_newline :: "nat \<Rightarrow> bool" where
  "tab_or_newline c = (c = 9 \<or> c = 10 \<or> c = 13)"

definition url_input :: "jsstring \<Rightarrow> jsstring" where
  "url_input s =
     filter (\<lambda>c. \<not> tab_or_newline c)
       (rev (dropWhile c0_or_space (rev (dropWhile c0_or_space s))))"

definition ascii_alpha :: "nat \<Rightarrow> bool" where
  "ascii_alpha c = ((65 \<le> c \<and> c \<le> 90) \<or> (97 \<le> c \<and> c \<le> 122))"

definition scheme_char :: "nat \<Rightarrow> bool" where
  "scheme_char c = (ascii_alpha c \<or> (48 \<le> c \<and> c \<le> 57) \<or> c = 43 \<or> c = 45 \<or> c = 46)"

fun scheme_state :: "jsstring \<Rightarrow> bool" where
  "scheme_state [] = False"
| "scheme_state (c # cs) = (if scheme_char c then scheme_state cs else c = 58)"

definition has_scheme :: "jsstring \<Rightarrow> bool" where
  "has_scheme s = (case s of [] \<Rightarrow> False | c # cs \<Rightarrow> ascii_alpha c \<and> scheme_state cs)"

section \<open>The platform and the request\<close>

text \<open>
  What the handler takes from its surroundings: the two environment variables, and the
  built-ins whose behaviour is a parameter here. \<open>JSON_parse\<close> returns \<open>None\<close> when
  \<^verbatim>\<open>JSON.parse\<close> throws; \<open>URL_rest\<close> is the verdict of the URL parser on an input
  that has a scheme; \<open>Number_toString\<close> renders a double; \<open>fetch\<close> is the persistence
  API answering one write.
\<close>

record api_write =
  w_url :: jsstring
  w_apikey :: jsstring
  w_row :: jsval

datatype fetch_outcome = FetchRejects | ResponseOk | ResponseNotOk | ResponseNotOkTextRejects

record platform =
  SUPABASE_URL :: "jsstring option"
  SUPABASE_SERVICE_ROLE_KEY :: "jsstring option"
  JSON_parse :: "jsstring \<Rightarrow> jsval option"
  URL_rest :: "jsstring \<Rightarrow> bool"
  Number_toString :: "jsnum \<Rightarrow> jsstring"
  fetch :: "api_write \<Rightarrow> fetch_outcome"

text \<open>
  The request: its HTTP verb, the four headers the handler reads (\<open>None\<close> when the
  header is not sent) and \<^verbatim>\<open>req.body\<close>, which is \<open>JUndefined\<close> when there is none,
  a string when the platform did not parse it, and a parsed value otherwise.
\<close>

record request =
  req_method :: jsstring
  h_origin :: "jsstring option"
  h_x_forwarded_for :: "jsstring option"
  h_x_real_ip :: "jsstring option"
  h_user_agent :: "jsstring option"
  body :: jsval

datatype response_body =
    EndEmpty
  | JsonOk
  | JsonError string
  | JsonErrorDetails string "string list"

text \<open>
  What one call of the handler leaves behind: the response headers in the order they
  were set, the status, the body, and the writes sent to the persistence API.
\<close>

record result =
  headers :: "(string \<times> jsstring) list"
  status :: nat
  response :: response_body
  writes :: "api_write list"

section \<open>The handler\<close>

definition ALLOWED_ORIGINS :: "jsstring list" where
  "ALLOWED_ORIGINS = [js ''https://thirty3labs.com'', js ''https://www.thirty3labs.com'']"

definition VALID_TYPES :: "jsstring list" where
  "VALID_TYPES = [js ''talent'', js ''vendor'']"

definition TALENT_DISCIPLINES :: "jsstring list" where
  "TALENT_DISCIPLINES =
     [js ''Photography'', js ''Videography'', js ''Directing'', js ''Graphic Design'',
      js ''Motion Design'', js ''Web Development'', js ''App Development'',
      js ''Production Management'', js ''Event Management'', js ''AV Engineering'',
      js ''Sound Design'', js ''Lighting Design'', js ''Fabrication'', js ''Styling'',
      js ''Other'']"

definition VENDOR_TYPES :: "jsstring list" where
  "VENDOR_TYPES =
     [js ''Fabrication & Build'', js ''Print & Signage'', js ''AV & Equipment Rental'',
      js ''Catering & F&B'', js ''Venue'', js ''Furniture & Decor Rental'',
      js ''Staffing'', js ''Transportation & Logistics'', js ''Other'']"

text \<open>
  \<^verbatim>\<open>/^[^\s@]+@[^\s@]+\.[^\s@]+$/.test(email)\<close>. \<open>plus_then P k\<close> matches one or
  more code units satisfying \<open>P\<close> and then whatever \<open>k\<close> matches, trying every length
  as the backtracking matcher does; 64 is \<^verbatim>\<open>@\<close> and 46 is the dot.
\<close>

fun plus_then :: "(nat \<Rightarrow> bool) \<Rightarrow> (jsstring \<Rightarrow> bool) \<Rightarrow> jsstring \<Rightarrow> bool" where
  "plus_then P k [] = False"
| "plus_then P k (c # cs) = (P c \<and> (k cs \<or> plus_then P k cs))"

definition not_space_at :: "nat \<Rightarrow> bool" where
  "not_space_at c = (\<not> is_ws c \<and> c \<noteq> 64)"

definition literal_then :: "nat \<Rightarrow> (jsstring \<Rightarrow> bool) \<Rightarrow> jsstring \<Rightarrow> bool" where
  "literal_then l k s = (case s of [] \<Rightarrow> False | c # cs \<Rightarrow> c = l \<and> k cs)"

definition isValidEmail :: "jsstring \<Rightarrow> bool" where
  "isValidEmail email =
     plus_then not_space_at
       (literal_then 64
         (plus_then not_space_at
           (literal_then 46
             (plus_then not_space_at (\<lambda>r. r = [])))))
       email"

text \<open>
  \<^verbatim>\<open>function isValidUrl(url)\<close>: a falsy argument is valid; otherwise the argument is
  converted to a string and parsed, and any exception means invalid.
\<close>

definition new_URL_ok :: "platform \<Rightarrow> jsstring \<Rightarrow> bool" where
  "new_URL_ok p s = (has_scheme (url_input s) \<and> URL_rest p s)"

definition isValidUrl :: "platform \<Rightarrow> jsval \<Rightarrow> bool" where
  "isValidUrl p url =
     (if \<not> truthy url then True
      else (case to_string (Number_toString p) url of
              None \<Rightarrow> False
            | Some s \<Rightarrow> new_URL_ok p s))"

text \<open>
  \<^verbatim>\<open>body.key\<close>: the own property of a parsed object, \<^verbatim>\<open>undefined\<close> when the object
  has no such property or the body is not an object (no prototype has a property named
  like a field of the form).
\<close>

definition get :: "jsval \<Rightarrow> string \<Rightarrow> jsval" where
  "get b k =
     (case b of
        JObj kvs \<Rightarrow> (case map_of kvs (js k) of None \<Rightarrow> JUndefined | Some v \<Rightarrow> v)
      | _ \<Rightarrow> JUndefined)"

text \<open>Lines 67 to 93: the list \<^verbatim>\<open>errors\<close> after all the checks, in push order.\<close>

definition validate :: "platform \<Rightarrow> jsval \<Rightarrow> string list" where
  "validate p b =
     (let type = stripHtml (get b ''type'');
          name = stripHtml (get b ''name'');
          email = stripHtml (get b ''email'');
          bio = stripHtml (get b ''bio'')
      in (if type \<notin> set VALID_TYPES then [''Invalid application type''] else [])
       @ (if name = [] \<or> length name < 2 then [''Name is required (min 2 characters)''] else [])
       @ (if email = [] \<or> \<not> isValidEmail email then [''Valid email is required''] else [])
       @ (if bio = [] \<or> length bio < 50 then [''Bio must be at least 50 characters''] else [])
       @ (if type = js ''talent'' then
            (let discipline = stripHtml (get b ''primary_discipline'')
             in if discipline = [] \<or> discipline \<notin> set TALENT_DISCIPLINES
                then [''Primary discipline is required''] else [])
          else [])
       @ (if type = js ''vendor'' then
            (let vendorType = stripHtml (get b ''vendor_type'')
             in if vendorType = [] \<or> vendorType \<notin> set VENDOR_TYPES
                then [''Vendor type is required''] else [])
          else [])
       @ (if truthy (get b ''website'') \<and> \<not> isValidUrl p (get b ''website'')
          then [''Invalid website URL''] else [])
       @ (if truthy (get b ''portfolio_url'') \<and> \<not> isValidUrl p (get b ''portfolio_url'')
          then [''Invalid portfolio URL''] else [])
       @ (if truthy (get b ''linkedin_url'') \<and> \<not> isValidUrl p (get b ''linkedin_url'')
          then [''Invalid LinkedIn URL''] else []))"

text \<open>Lines 99 to 128: the object \<^verbatim>\<open>row\<close>, its properties in insertion order.\<close>

definition or_null :: "jsstring \<Rightarrow> jsval" where
  "or_null s = (if s = [] then JNull else JStr s)"

definition header_or_null :: "jsstring option \<Rightarrow> jsval \<Rightarrow> jsval" where
  "header_or_null h alt = (case h of None \<Rightarrow> alt | Some s \<Rightarrow> if s = [] then alt else JStr s)"

definition strip_each :: "jsval \<Rightarrow> jsval" where
  "strip_each v =
     (case v of
        JArr xs \<Rightarrow> JArr (map JStr (filter (\<lambda>s. s \<noteq> []) (map stripHtml xs)))
      | _ \<Rightarrow> JNull)"

definition base_row :: "request \<Rightarrow> jsval \<Rightarrow> (jsstring \<times> jsval) list" where
  "base_row req b =
     [(js ''type'', JStr (stripHtml (get b ''type''))),
      (js ''name'', JStr (stripHtml (get b ''name''))),
      (js ''email'', JStr (stripHtml (get b ''email''))),
      (js ''phone'', or_null (stripHtml (get b ''phone''))),
      (js ''location'', or_null (stripHtml (get b ''location''))),
      (js ''company'', or_null (stripHtml (get b ''company''))),
      (js ''website'', or_null (stripHtml (get b ''website''))),
      (js ''portfolio_url'', or_null (stripHtml (get b ''portfolio_url''))),
      (js ''linkedin_url'', or_null (stripHtml (get b ''linkedin_url''))),
      (js ''bio'', JStr (stripHtml (get b ''bio''))),
      (js ''referral_source'', or_null (stripHtml (get b ''referral_source''))),
      (js ''ip_address'',
         header_or_null (h_x_forwarded_for req) (header_or_null (h_x_real_ip req) JNull)),
      (js ''user_agent'', header_or_null (h_user_agent req) JNull)]"

definition talent_row :: "platform \<Rightarrow> jsval \<Rightarrow> (jsstring \<times> jsval) list option" where
  "talent_row p b =
     (case Number (Number_toString p) (get b ''years_experience'') of
        None \<Rightarrow> None
      | Some n \<Rightarrow>
          Some [(js ''primary_discipline'', JStr (stripHtml (get b ''primary_discipline''))),
                (js ''disciplines'', strip_each (get b ''disciplines'')),
                (js ''years_experience'', if num_truthy n then JNum n else JNull)])"

definition vendor_row :: "jsval \<Rightarrow> (jsstring \<times> jsval) list" where
  "vendor_row b =
     [(js ''vendor_type'', JStr (stripHtml (get b ''vendor_type''))),
      (js ''services_offered'', strip_each (get b ''services_offered''))]"

definition make_row :: "platform \<Rightarrow> request \<Rightarrow> jsval \<Rightarrow> jsval option" where
  "make_row p req b =
     (let type = stripHtml (get b ''type'') in
      case (if type = js ''talent'' then talent_row p b else Some []) of
        None \<Rightarrow> None
      | Some t \<Rightarrow>
          Some (JObj (base_row req b @ t @ (if type = js ''vendor'' then vendor_row b else []))))"

text \<open>Lines 39 to 46: the three headers set before anything else.\<close>

definition origin_of :: "request \<Rightarrow> jsstring" where
  "origin_of req = (case h_origin req of None \<Rightarrow> [] | Some s \<Rightarrow> s)"

definition allowed :: "jsstring \<Rightarrow> bool" where
  "allowed origin = (origin \<in> set ALLOWED_ORIGINS \<or> prefix (js ''http://localhost'') origin)"

definition cors_headers :: "request \<Rightarrow> (string \<times> jsstring) list" where
  "cors_headers req =
     (if allowed (origin_of req) then [(''Access-Control-Allow-Origin'', origin_of req)] else [])
     @ [(''Access-Control-Allow-Methods'', js ''POST, OPTIONS''),
        (''Access-Control-Allow-Headers'', js ''Content-Type'')]"

definition respond :: "request \<Rightarrow> nat \<Rightarrow> response_body \<Rightarrow> api_write list \<Rightarrow> result" where
  "respond req st b ws = \<lparr>headers = cors_headers req, status = st, response = b, writes = ws\<rparr>"

definition configured :: "platform \<Rightarrow> bool" where
  "configured p =
     (SUPABASE_URL p \<noteq> None \<and> SUPABASE_URL p \<noteq> Some []
      \<and> SUPABASE_SERVICE_ROLE_KEY p \<noteq> None \<and> SUPABASE_SERVICE_ROLE_KEY p \<noteq> Some [])"

text \<open>
  Line 59: a string body goes through \<^verbatim>\<open>JSON.parse\<close>, any other body is taken as
  it is. \<open>None\<close> is the exception of \<^verbatim>\<open>JSON.parse\<close>.
\<close>

definition parse_body :: "platform \<Rightarrow> jsval \<Rightarrow> jsval option" where
  "parse_body p raw = (case raw of JStr s \<Rightarrow> JSON_parse p s | _ \<Rightarrow> Some raw)"

text \<open>
  In a write, \<open>w_row\<close> is the object \<^verbatim>\<open>row\<close> as line 138 hands it to
  \<^verbatim>\<open>JSON.stringify\<close>, not the text that goes out: strings and null are written as
  they are, while a number that is not finite would be written as null.
\<close>

definition the_write :: "platform \<Rightarrow> jsval \<Rightarrow> api_write" where
  "the_write p row =
     \<lparr>w_url = (case SUPABASE_URL p of None \<Rightarrow> [] | Some u \<Rightarrow> u) @ js ''/rest/v1/applications'',
      w_apikey = (case SUPABASE_SERVICE_ROLE_KEY p of None \<Rightarrow> [] | Some k \<Rightarrow> k),
      w_row = row\<rparr>"

text \<open>
  \<^verbatim>\<open>export default async function handler(req, res)\<close>. Every exception thrown inside
  the \<^verbatim>\<open>try\<close> block ends in the \<^verbatim>\<open>catch\<close> of line 148. What is written to the
  console is left out.
\<close>

definition handler :: "platform \<Rightarrow> request \<Rightarrow> result" where
  "handler p req =
     (if req_method req = js ''OPTIONS'' then respond req 200 EndEmpty []
      else if req_method req \<noteq> js ''POST'' then respond req 405 (JsonError ''Method not allowed'') []
      else if \<not> configured p then respond req 500 (JsonError ''Server configuration error'') []
      else
        (case parse_body p (body req) of
           None \<Rightarrow> respond req 500 (JsonError ''Internal server error'') []
         | Some b \<Rightarrow>
             if \<not> truthy b then respond req 400 (JsonError ''Missing request body'') []
             else if truthy (get b ''website_url'') then respond req 200 JsonOk []
             else if validate p b \<noteq> [] then
               respond req 400 (JsonErrorDetails ''Validation failed'' (validate p b)) []
             else
               (case make_row p req b of
                  None \<Rightarrow> respond req 500 (JsonError ''Internal server error'') []
                | Some row \<Rightarrow>
                    (case fetch p (the_write p row) of
                       FetchRejects \<Rightarrow>
                         respond req 500 (JsonError ''Internal server error'') [the_write p row]
                     | ResponseOk \<Rightarrow> respond req 200 JsonOk [the_write p row]
                     | ResponseNotOk \<Rightarrow>
                         respond req 500 (JsonError ''Failed to save application'')
                           [the_write p row]
                     | ResponseNotOkTextRejects \<Rightarrow>
                         respond req 500 (JsonError ''Internal server error'')
                           [the_write p row]))))"

section \<open>Reading a forwarded record\<close>

text \<open>Every string value that a value holds, at any depth; property names are not values.\<close>

fun strings_of :: "jsval \<Rightarrow> jsstring list"
  and strings_of_list :: "jsval list \<Rightarrow> jsstring list"
  and strings_of_props :: "(jsstring \<times> jsval) list \<Rightarrow> jsstring list" where
  "strings_of (JStr s) = [s]"
| "strings_of (JArr xs) = strings_of_list xs"
| "strings_of (JObj kvs) = strings_of_props kvs"
| "strings_of JUndefined = []"
| "strings_of JNull = []"
| "strings_of (JBool b) = []"
| "strings_of (JNum n) = []"
| "strings_of_list [] = []"
| "strings_of_list (x # xs) = strings_of x @ strings_of_list xs"
| "strings_of_props [] = []"
| "strings_of_props (kv # kvs) = strings_of (snd kv) @ strings_of_props kvs"

definition row_of :: "api_write \<Rightarrow> (jsstring \<times> jsval) list" where
  "row_of w = (case w_row w of JObj kvs \<Rightarrow> kvs | _ \<Rightarrow> [])"

definition field_of :: "api_write \<Rightarrow> string \<Rightarrow> jsval option" where
  "field_of w k = map_of (row_of w) (js k)"

section \<open>Inputs of the examples\<close>

text \<open>
  A platform with both environment variables set, whose persistence API accepts every
  write. Its \<open>JSON_parse\<close> knows two JSON texts and rejects every other one, among
  them \<^verbatim>\<open>{\<close>, which is not JSON; its URL parser accepts whatever has a scheme.
\<close>

definition example_platform :: platform where
  "example_platform =
     \<lparr>SUPABASE_URL = Some (js ''https://db.example''),
      SUPABASE_SERVICE_ROLE_KEY = Some (js ''service-key''),
      JSON_parse = (\<lambda>s. if s = js ''null'' then Some JNull
                         else if s = js ''{}'' then Some (JObj [])
                         else None),
      URL_rest = (\<lambda>s. True),
      Number_toString = (\<lambda>n. js ''0''),
      fetch = (\<lambda>w. ResponseOk)\<rparr>"

text \<open>The same platform without its service credential.\<close>

definition unconfigured_platform :: platform where
  "unconfigured_platform = example_platform\<lparr>SUPABASE_SERVICE_ROLE_KEY := None\<rparr>"

text \<open>A request with the given verb and body, sent from the production site.\<close>

definition request_with :: "string \<Rightarrow> jsval \<Rightarrow> request" where
  "request_with verb b =
     \<lparr>req_method = js verb,
      h_origin = Some (js ''https://thirty3labs.com''),
      h_x_forwarded_for = None,
      h_x_real_ip = None,
      h_user_agent = None,
      body = b\<rparr>"

text \<open>The properties of a talent application that passes every check.\<close>

definition applicant :: "(jsstring \<times> jsval) list" where
  "applicant =
     [(js ''type'', JStr (js ''talent'')),
      (js ''name'', JStr (js ''Jo'')),
      (js ''email'', JStr (js ''jo@x.com'')),
      (js ''bio'', JStr (js ''Ten years of portraits, weddings and product shoots.'')),
      (js ''primary_discipline'', JStr (js ''Photography''))]"

text \<open>Scenario 2 of the specification.\<close>

definition scenario2 :: jsval where
  "scenario2 =
     JObj [(js ''type'', JStr (js ''vendor'')),
           (js ''name'', JStr (js ''A'')),
           (js ''email'', JStr (js ''bad-email'')),
           (js ''bio'', JStr (js ''short''))]"

text \<open>
  Scenario 3 of the specification: the hidden field is filled in and nothing else is
  valid.
\<close>

definition bot_body :: jsval where
  "bot_body =
     JObj [(js ''website_url'', JStr (js ''http://spam.example'')),
           (js ''type'', JStr (js ''robot''))]"

text \<open>
  The same application with a website that is nothing but markup, and with a number of
  years written as the string \<^verbatim>\<open>"0"\<close>.
\<close>

definition tagged_website :: jsval where
  "tagged_website = JObj ((js ''website'', JStr (js ''<b></b>'')) # applicant)"



text \<open>The application sent by a client whose \<^verbatim>\<open>User-Agent\<close> header holds markup.\<close>

definition tagged_agent :: request where
  "tagged_agent =
     (request_with ''POST'' (JObj applicant))\<lparr>h_user_agent := Some (js ''<b>bot</b>'')\<rparr>"

section \<open>The sanitizer\<close>

lemma after_gt_None_iff: "after_gt cs = None \<longleftrightarrow> 62 \<notin> set cs"
  by (induction cs) auto

lemma after_gt_split:
  "after_gt cs = Some r \<Longrightarrow> \<exists>mid. cs = mid @ 62 # r \<and> 62 \<notin> set mid"
proof (induction cs)
  case Nil
  then show ?case by simp
next
  case (Cons c cs)
  show ?case
  proof (cases "c = 62")
    case True
    with Cons.prems have "c # cs = [] @ 62 # r \<and> 62 \<notin> set []" by simp
    then show ?thesis by blast
  next
    case False
    with Cons obtain mid where "cs = mid @ 62 # r" "62 \<notin> set mid" by auto
    with False have "c # cs = (c # mid) @ 62 # r \<and> 62 \<notin> set (c # mid)" by simp
    then show ?thesis by blast
  qed
qed

lemma has_tag_append:
  "has_tag (xs @ ys) \<longleftrightarrow> has_tag xs \<or> has_tag ys \<or> (60 \<in> set xs \<and> 62 \<in> set ys)"
  by (induction xs) (auto simp: after_gt_None_iff)

text \<open>
  \<open>has_tag\<close> says what it should: some substring is a \<^verbatim>\<open><\<close>, then code units
  other than \<^verbatim>\<open>>\<close>, then a \<^verbatim>\<open>>\<close>.
\<close>

lemma has_tag_iff:
  "has_tag s \<longleftrightarrow> (\<exists>pre mid post. s = pre @ 60 # mid @ 62 # post \<and> 62 \<notin> set mid)"
proof
  assume "has_tag s"
  then show "\<exists>pre mid post. s = pre @ 60 # mid @ 62 # post \<and> 62 \<notin> set mid"
  proof (induction s)
    case Nil
    then show ?case by simp
  next
    case (Cons c cs)
    show ?case
    proof (cases "c = 60 \<and> after_gt cs \<noteq> None")
      case True
      then obtain r where "after_gt cs = Some r" by auto
      then obtain mid where "cs = mid @ 62 # r" "62 \<notin> set mid"
        using after_gt_split by blast
      with True have "c # cs = [] @ 60 # mid @ 62 # r \<and> 62 \<notin> set mid" by simp
      then show ?thesis by blast
    next
      case False
      with Cons.prems have "has_tag cs" by auto
      then obtain pre mid post where "cs = pre @ 60 # mid @ 62 # post" "62 \<notin> set mid"
        using Cons.IH by blast
      then have "c # cs = (c # pre) @ 60 # mid @ 62 # post \<and> 62 \<notin> set mid" by simp
      then show ?thesis by blast
    qed
  qed
next
  assume "\<exists>pre mid post. s = pre @ 60 # mid @ 62 # post \<and> 62 \<notin> set mid"
  then obtain pre mid post where s: "s = pre @ 60 # mid @ 62 # post" by blast
  have "has_tag (60 # mid @ 62 # post)" by (simp add: after_gt_None_iff)
  with s show "has_tag s" by (simp add: has_tag_append)
qed

text \<open>The replace only deletes: nothing in its result was not in its argument.\<close>

lemma after_gt_set: "after_gt cs = Some r \<Longrightarrow> set r \<subseteq> set cs"
  by (induction cs) (auto split: if_splits)

lemma set_strip_tags: "set (strip_tags s) \<subseteq> set s"
proof (induction s rule: strip_tags.induct)
  case 1
  show ?case by simp
next
  case (2 c cs)
  show ?case
  proof (cases "c = 60")
    case False
    with 2 show ?thesis by auto
  next
    case True
    show ?thesis
    proof (cases "after_gt cs")
      case None
      with True 2 show ?thesis by auto
    next
      case (Some r)
      with True 2 after_gt_set [OF Some] show ?thesis by auto
    qed
  qed
qed

text \<open>
  After the replace no \<^verbatim>\<open><\<close> is followed by a \<^verbatim>\<open>>\<close> any more: a \<^verbatim>\<open><\<close> that
  stays had no \<^verbatim>\<open>>\<close> behind it, and the rest of the scan adds none.
\<close>

lemma strip_tags_no_tag: "\<not> has_tag (strip_tags s)"
proof (induction s rule: strip_tags.induct)
  case 1
  show ?case by simp
next
  case (2 c cs)
  show ?case
  proof (cases "c = 60 \<and> after_gt cs \<noteq> None")
    case True
    with 2 show ?thesis by auto
  next
    case False
    then have keep: "strip_tags (c # cs) = c # strip_tags cs" by auto
    have ih: "\<not> has_tag (strip_tags cs)" using False 2 by auto
    have "c = 60 \<Longrightarrow> after_gt (strip_tags cs) = None"
      using False set_strip_tags [of cs] by (auto simp: after_gt_None_iff)
    with keep ih show ?thesis by auto
  qed
qed

lemma strip_tags_id: "\<not> has_tag s \<Longrightarrow> strip_tags s = s"
  by (induction s rule: strip_tags.induct) (auto split: option.splits)

lemma trim_decomp: "\<exists>a b. s = a @ trim s @ b"
proof -
  let ?d = "dropWhile is_ws s"
  have 1: "s = takeWhile is_ws s @ ?d" by simp
  have "rev ?d = takeWhile is_ws (rev ?d) @ dropWhile is_ws (rev ?d)" by simp
  then have 2: "?d = trim s @ rev (takeWhile is_ws (rev ?d))"
    unfolding trim_def by (metis rev_append rev_rev_ident)
  from 1 2 show ?thesis by metis
qed

lemma trim_no_tag:
  assumes "\<not> has_tag s"
  shows "\<not> has_tag (trim s)"
proof -
  obtain x y where "s = x @ trim s @ y" using trim_decomp by blast
  then have "has_tag (trim s) \<Longrightarrow> has_tag s"
    by (metis has_tag_append)
  with assms show ?thesis by blast
qed

lemma dropWhile_hd: "dropWhile P xs \<noteq> [] \<Longrightarrow> \<not> P (hd (dropWhile P xs))"
  by (simp add: hd_dropWhile)

lemma last_dropWhile: "dropWhile P xs \<noteq> [] \<Longrightarrow> last (dropWhile P xs) = last xs"
  by (induction xs) (auto split: if_splits)

lemma trimmed_trim: "trimmed (trim s)"
proof (cases "trim s = []")
  case True
  then show ?thesis by (simp add: trimmed_def)
next
  case False
  let ?d = "dropWhile is_ws s"
  let ?e = "dropWhile is_ws (rev ?d)"
  have e: "?e \<noteq> []" using False by (simp add: trim_def)
  have d: "?d \<noteq> []"
  proof
    assume "?d = []"
    then have "?e = []" by (simp only: rev.simps dropWhile.simps)
    with e show False by blast
  qed
  have "last (trim s) = hd ?e" using e by (simp add: trim_def last_rev)
  then have l: "\<not> is_ws (last (trim s))" using dropWhile_hd [OF e] by simp
  have "hd (trim s) = last ?e" using e by (simp add: trim_def hd_rev)
  also have "\<dots> = last (rev ?d)" using e by (rule last_dropWhile)
  also have "\<dots> = hd ?d" using d by (simp add: last_rev)
  finally have "\<not> is_ws (hd (trim s))" using dropWhile_hd [OF d] by simp
  with l show ?thesis by (simp add: trimmed_def)
qed

lemma dropWhile_id: "xs = [] \<or> \<not> P (hd xs) \<Longrightarrow> dropWhile P xs = xs"
  by (cases xs) auto

lemma trim_id:
  assumes "trimmed s"
  shows "trim s = s"
proof -
  from assms have 1: "dropWhile is_ws s = s"
    by (intro dropWhile_id) (auto simp: trimmed_def)
  from assms have "rev s = [] \<or> \<not> is_ws (hd (rev s))"
    by (auto simp: trimmed_def hd_rev)
  then have "dropWhile is_ws (rev s) = rev s" by (rule dropWhile_id)
  with 1 show ?thesis by (simp add: trim_def)
qed

text \<open>What every result of \<open>stripHtml\<close> looks like, whatever the argument.\<close>

lemma trimmed_Nil: "trimmed []"
  by (simp add: trimmed_def)

lemma stripHtml_clean: "\<not> has_tag (stripHtml v) \<and> trimmed (stripHtml v)"
  by (cases v) (simp_all add: trim_no_tag strip_tags_no_tag trimmed_trim trimmed_Nil)

text \<open>
  C4. For every input value, \<open>stripHtml\<close> returns the empty string when the input is not
  a string; for every string input, the result contains no substring matching the tag
  pattern and has neither leading nor trailing whitespace.
\<close>

theorem stripHtml_result:
  "((\<forall>s. v \<noteq> JStr s) \<longrightarrow> stripHtml v = [])
   \<and> \<not> has_tag (stripHtml (JStr str))
   \<and> trimmed (stripHtml (JStr str))"
proof -
  have "(\<forall>s. v \<noteq> JStr s) \<longrightarrow> stripHtml v = []"
    by (cases v) simp_all
  then show ?thesis
    using stripHtml_clean [of "JStr str"] by blast
qed

theorem stripHtml_result_witness:
  "(\<forall>s. JNum (Approx 7) \<noteq> JStr s)
   \<and> stripHtml (JNum (Approx 7)) = []
   \<and> stripHtml (JStr (js '' <b>hi</b> '')) = js ''hi''
   \<and> \<not> has_tag (stripHtml (JStr (js '' <b>hi</b> '')))
   \<and> trimmed (stripHtml (JStr (js '' <b>hi</b> '')))"
  using stripHtml_result [of "JNum (Approx 7)" "js '' <b>hi</b> ''"]
  by (simp add: js_def trim_def is_ws_def)

text \<open>
  C5. Sanitization is idempotent: sanitizing the result of a sanitization changes
  nothing.
\<close>

theorem stripHtml_idempotent: "stripHtml (JStr (stripHtml (JStr x))) = stripHtml (JStr x)"
proof -
  let ?t = "trim (strip_tags x)"
  have "\<not> has_tag ?t" by (simp add: trim_no_tag strip_tags_no_tag)
  then have "strip_tags ?t = ?t" by (rule strip_tags_id)
  moreover have "trim ?t = ?t" by (simp add: trim_id trimmed_trim)
  ultimately show ?thesis by simp
qed

section \<open>The email pattern\<close>

text \<open>
  The matcher accepts the language of the pattern: a non-empty run without whitespace
  and \<^verbatim>\<open>@\<close>, an \<^verbatim>\<open>@\<close>, a second such run, a dot, a third such run.
\<close>

lemma plus_then_iff:
  "plus_then P k s \<longleftrightarrow> (\<exists>a r. s = a @ r \<and> a \<noteq> [] \<and> list_all P a \<and> k r)"
proof (induction s)
  case Nil
  show ?case by simp
next
  case (Cons c cs)
  show ?case
  proof
    assume "plus_then P k (c # cs)"
    then have c: "P c" and or: "k cs \<or> plus_then P k cs" by auto
    from or show "\<exists>a r. c # cs = a @ r \<and> a \<noteq> [] \<and> list_all P a \<and> k r"
    proof
      assume "k cs"
      with c have "c # cs = [c] @ cs \<and> [c] \<noteq> [] \<and> list_all P [c] \<and> k cs" by simp
      then show ?thesis by blast
    next
      assume "plus_then P k cs"
      with Cons obtain a r where "cs = a @ r" "list_all P a" "k r" by blast
      with c have "c # cs = (c # a) @ r \<and> c # a \<noteq> [] \<and> list_all P (c # a) \<and> k r" by simp
      then show ?thesis by blast
    qed
  next
    assume "\<exists>a r. c # cs = a @ r \<and> a \<noteq> [] \<and> list_all P a \<and> k r"
    then obtain a r where ar: "c # cs = a @ r" "a \<noteq> []" "list_all P a" "k r" by blast
    then obtain a' where a: "a = c # a'" by (cases a) auto
    with ar have c: "P c" and cs: "cs = a' @ r" and a': "list_all P a'" by auto
    show "plus_then P k (c # cs)"
    proof (cases "a' = []")
      case True
      with c cs ar(4) show ?thesis by simp
    next
      case False
      with cs a' ar(4) Cons have "plus_then P k cs" by blast
      with c show ?thesis by simp
    qed
  qed
qed

lemma literal_then_iff: "literal_then l k s \<longleftrightarrow> (\<exists>r. s = l # r \<and> k r)"
  by (cases s) (auto simp: literal_then_def)

lemma isValidEmail_iff:
  "isValidEmail s \<longleftrightarrow>
     (\<exists>a b c. s = a @ 64 # b @ 46 # c \<and> a \<noteq> [] \<and> b \<noteq> [] \<and> c \<noteq> []
        \<and> list_all not_space_at a \<and> list_all not_space_at b \<and> list_all not_space_at c)"
  unfolding isValidEmail_def plus_then_iff literal_then_iff
  by (auto; blast)

section \<open>The request lifecycle\<close>

lemma configured_example: "configured example_platform"
  by (simp add: configured_def example_platform_def js_def)

lemmas example_input = request_with_def parse_body_def example_platform_def js_def

lemma verbs_differ: "js ''POST'' \<noteq> js ''OPTIONS''"
  by (simp add: js_def)

lemma stripHtml_nonempty_truthy: "stripHtml v \<noteq> [] \<Longrightarrow> truthy v"
  by (cases v) (auto simp: trim_def)

lemma get_defined_truthy: "get b k \<noteq> JUndefined \<Longrightarrow> truthy b"
  by (cases b) (simp_all add: get_def)

text \<open>
  C1. A POST request, with the configuration present, whose parsed body has a value in
  the field \<^verbatim>\<open>website_url\<close> that is not empty after sanitization is answered 200
  with \<^verbatim>\<open>{ok: true}\<close>: whatever the other fields are, no validation result shows
  and no write is sent to the persistence API.
\<close>

theorem honeypot_accepts:
  assumes "req_method req = js ''POST''"
    and "configured p"
    and "parse_body p (body req) = Some b"
    and "stripHtml (get b ''website_url'') \<noteq> []"
  shows "status (handler p req) = 200 \<and> response (handler p req) = JsonOk
         \<and> writes (handler p req) = [] \<and> headers (handler p req) = cors_headers req"
proof -
  have hp: "truthy (get b ''website_url'')"
    using assms(4) by (rule stripHtml_nonempty_truthy)
  then have "get b ''website_url'' \<noteq> JUndefined" by auto
  then have "truthy b" by (rule get_defined_truthy)
  with hp assms(1-3) have "handler p req = respond req 200 JsonOk []"
    by (simp add: handler_def verbs_differ)
  then show ?thesis by (simp add: respond_def)
qed

text \<open>The bot of scenario 3: its type is invalid and it has neither name, email nor bio.\<close>

theorem honeypot_accepts_witness:
  "req_method (request_with ''POST'' bot_body) = js ''POST''
   \<and> configured example_platform
   \<and> parse_body example_platform (body (request_with ''POST'' bot_body)) = Some bot_body
   \<and> stripHtml (get bot_body ''website_url'') \<noteq> []
   \<and> validate example_platform bot_body \<noteq> []
   \<and> status (handler example_platform (request_with ''POST'' bot_body)) = 200
   \<and> response (handler example_platform (request_with ''POST'' bot_body)) = JsonOk
   \<and> writes (handler example_platform (request_with ''POST'' bot_body)) = []"
proof -
  have 1: "req_method (request_with ''POST'' bot_body) = js ''POST''"
    by (simp add: request_with_def)
  have 2: "parse_body example_platform (body (request_with ''POST'' bot_body)) = Some bot_body"
    by (simp add: request_with_def parse_body_def bot_body_def)
  have 3: "stripHtml (get bot_body ''website_url'') \<noteq> []"
    by (simp add: bot_body_def get_def js_def trim_def is_ws_def)
  have 4: "validate example_platform bot_body \<noteq> []"
    by (simp add: validate_def bot_body_def get_def js_def VALID_TYPES_def trim_def is_ws_def Let_def)
  from honeypot_accepts [OF 1 configured_example 2 3] 1 2 3 4 configured_example
  show ?thesis by simp
qed

text \<open>
  C2, as stated, fails: a body that \<^verbatim>\<open>JSON.parse\<close> rejects raises inside the
  \<^verbatim>\<open>try\<close> block and is answered by the \<^verbatim>\<open>catch\<close>, with 500.
\<close>

theorem unparseable_body_counterexample:
  "req_method (request_with ''POST'' (JStr (js ''{''))) = js ''POST''
   \<and> configured example_platform
   \<and> parse_body example_platform (body (request_with ''POST'' (JStr (js ''{'')))) = None
   \<and> status (handler example_platform (request_with ''POST'' (JStr (js ''{'')))) = 500
   \<and> status (handler example_platform (request_with ''POST'' (JStr (js ''{'')))) \<noteq> 400
   \<and> response (handler example_platform (request_with ''POST'' (JStr (js ''{''))))
       = JsonError ''Internal server error''"
proof -
  have 1: "req_method (request_with ''POST'' (JStr (js ''{''))) = js ''POST''"
    by (simp add: request_with_def)
  have 2: "parse_body example_platform (body (request_with ''POST'' (JStr (js ''{'')))) = None"
    by (simp add: example_input)
  have "handler example_platform (request_with ''POST'' (JStr (js ''{'')))
        = respond (request_with ''POST'' (JStr (js ''{''))) 500 (JsonError ''Internal server error'') []"
    using 1 2 configured_example by (simp add: handler_def verbs_differ)
  with 1 2 configured_example show ?thesis by (simp add: respond_def)
qed

text \<open>
  C2, amended. For every POST request with the configuration present: when the body is
  missing, or parses to a falsy value, the answer is 400 with
  \<^verbatim>\<open>{error: "Missing request body"}\<close>; when the body is a string that cannot be
  parsed as JSON, the answer is 500 with \<^verbatim>\<open>{error: "Internal server error"}\<close>.
\<close>

theorem missing_or_unparseable_body:
  assumes "req_method req = js ''POST''" and "configured p"
  shows "((body req = JUndefined \<or> (\<exists>b. parse_body p (body req) = Some b \<and> \<not> truthy b))
            \<longrightarrow> status (handler p req) = 400
              \<and> response (handler p req) = JsonError ''Missing request body''
              \<and> writes (handler p req) = [])
       \<and> (parse_body p (body req) = None
            \<longrightarrow> status (handler p req) = 500
              \<and> response (handler p req) = JsonError ''Internal server error''
              \<and> writes (handler p req) = [])"
proof -
  have absent: "body req = JUndefined \<Longrightarrow> \<exists>b. parse_body p (body req) = Some b \<and> \<not> truthy b"
    by (simp add: parse_body_def)
  have falsy: "handler p req = respond req 400 (JsonError ''Missing request body'') []"
    if "parse_body p (body req) = Some b" and "\<not> truthy b" for b
    using that assms by (simp add: handler_def verbs_differ)
  have thrown: "handler p req = respond req 500 (JsonError ''Internal server error'') []"
    if "parse_body p (body req) = None"
    using that assms by (simp add: handler_def verbs_differ)
  show ?thesis
    using absent falsy thrown by (auto simp: respond_def)
qed

theorem missing_or_unparseable_body_witness:
  "req_method (request_with ''POST'' JUndefined) = js ''POST''
   \<and> configured example_platform
   \<and> body (request_with ''POST'' JUndefined) = JUndefined
   \<and> status (handler example_platform (request_with ''POST'' JUndefined)) = 400
   \<and> response (handler example_platform (request_with ''POST'' JUndefined))
       = JsonError ''Missing request body''
   \<and> parse_body example_platform (body (request_with ''POST'' (JStr (js ''{'')))) = None
   \<and> writes (handler example_platform (request_with ''POST'' (JStr (js ''{'')))) = []"
proof -
  have 1: "req_method (request_with ''POST'' b) = js ''POST''" for b
    by (simp add: request_with_def)
  have 2: "body (request_with ''POST'' JUndefined) = JUndefined"
    by (simp add: request_with_def)
  have 3: "parse_body example_platform (body (request_with ''POST'' (JStr (js ''{'')))) = None"
    by (simp add: example_input)
  from missing_or_unparseable_body [OF 1 configured_example, of JUndefined]
    missing_or_unparseable_body [OF 1 configured_example, of "JStr (js ''{'')"]
    1 2 3 configured_example
  show ?thesis by simp
qed

text \<open>
  C7, as stated, fails: the verb is looked at before the configuration, so without the
  service credential an OPTIONS request is still answered 200 and a GET request 405.
\<close>

theorem unconfigured_counterexample:
  "\<not> configured unconfigured_platform
   \<and> status (handler unconfigured_platform (request_with ''OPTIONS'' JUndefined)) = 200
   \<and> status (handler unconfigured_platform (request_with ''GET'' JUndefined)) = 405"
  by (simp add: handler_def respond_def configured_def unconfigured_platform_def example_input)

text \<open>
  C7, amended. When a required configuration value is absent (or empty), every POST
  request is answered 500 with \<^verbatim>\<open>{error: "Server configuration error"}\<close> before
  the body is parsed: the outcome is the same for any other body and any other
  \<^verbatim>\<open>JSON.parse\<close>. An OPTIONS request is answered 200 and any other verb 405, as they
  are when the configuration is present.
\<close>

theorem unconfigured_by_verb:
  assumes "\<not> configured p"
  shows "(req_method req = js ''POST''
            \<longrightarrow> status (handler p req) = 500
              \<and> response (handler p req) = JsonError ''Server configuration error''
              \<and> writes (handler p req) = []
              \<and> handler p (req\<lparr>body := b\<rparr>) = handler p req
              \<and> handler (p\<lparr>JSON_parse := f\<rparr>) req = handler p req)
       \<and> (req_method req = js ''OPTIONS''
            \<longrightarrow> status (handler p req) = 200 \<and> response (handler p req) = EndEmpty)
       \<and> (req_method req \<noteq> js ''POST'' \<and> req_method req \<noteq> js ''OPTIONS''
            \<longrightarrow> status (handler p req) = 405
              \<and> response (handler p req) = JsonError ''Method not allowed'')"
  using assms
  by (simp add: handler_def respond_def verbs_differ configured_def cors_headers_def origin_of_def)

theorem unconfigured_by_verb_witness:
  "\<not> configured unconfigured_platform
   \<and> req_method (request_with ''POST'' scenario2) = js ''POST''
   \<and> status (handler unconfigured_platform (request_with ''POST'' scenario2)) = 500
   \<and> response (handler unconfigured_platform (request_with ''POST'' scenario2))
       = JsonError ''Server configuration error''
   \<and> writes (handler unconfigured_platform (request_with ''POST'' scenario2)) = []"
proof -
  have 1: "\<not> configured unconfigured_platform"
    by (simp add: configured_def unconfigured_platform_def example_platform_def)
  have 2: "req_method (request_with ''POST'' scenario2) = js ''POST''"
    by (simp add: request_with_def)
  from unconfigured_by_verb [OF 1, of "request_with ''POST'' scenario2"] 1 2
  show ?thesis by simp
qed

text \<open>
  Each message is pushed exactly when its own rule is violated, whatever the other
  rules find: no check is skipped after an earlier one has failed.
\<close>

lemma isValidEmail_Nil: "\<not> isValidEmail []"
  by (simp add: isValidEmail_def)

lemma rule_type:
  "''Invalid application type'' \<in> set (validate p b) \<longleftrightarrow>
     stripHtml (get b ''type'') \<noteq> js ''talent'' \<and> stripHtml (get b ''type'') \<noteq> js ''vendor''"
  by (simp add: validate_def Let_def VALID_TYPES_def)

lemma rule_name:
  "''Name is required (min 2 characters)'' \<in> set (validate p b) \<longleftrightarrow>
     length (stripHtml (get b ''name'')) < 2"
  by (auto simp: validate_def Let_def)

lemma rule_email:
  "''Valid email is required'' \<in> set (validate p b) \<longleftrightarrow>
     \<not> isValidEmail (stripHtml (get b ''email''))"
  using isValidEmail_Nil by (auto simp: validate_def Let_def)

lemma rule_bio:
  "''Bio must be at least 50 characters'' \<in> set (validate p b) \<longleftrightarrow>
     length (stripHtml (get b ''bio'')) < 50"
  by (auto simp: validate_def Let_def)

lemma rule_discipline:
  "''Primary discipline is required'' \<in> set (validate p b) \<longleftrightarrow>
     stripHtml (get b ''type'') = js ''talent''
     \<and> (stripHtml (get b ''primary_discipline'') = []
          \<or> stripHtml (get b ''primary_discipline'') \<notin> set TALENT_DISCIPLINES)"
  by (auto simp: validate_def Let_def)

lemma rule_vendor:
  "''Vendor type is required'' \<in> set (validate p b) \<longleftrightarrow>
     stripHtml (get b ''type'') = js ''vendor''
     \<and> (stripHtml (get b ''vendor_type'') = []
          \<or> stripHtml (get b ''vendor_type'') \<notin> set VENDOR_TYPES)"
  by (auto simp: validate_def Let_def)

lemma rule_website:
  "''Invalid website URL'' \<in> set (validate p b) \<longleftrightarrow>
     truthy (get b ''website'') \<and> \<not> isValidUrl p (get b ''website'')"
  by (simp add: validate_def Let_def)

lemma rule_portfolio:
  "''Invalid portfolio URL'' \<in> set (validate p b) \<longleftrightarrow>
     truthy (get b ''portfolio_url'') \<and> \<not> isValidUrl p (get b ''portfolio_url'')"
  by (simp add: validate_def Let_def)

lemma rule_linkedin:
  "''Invalid LinkedIn URL'' \<in> set (validate p b) \<longleftrightarrow>
     truthy (get b ''linkedin_url'') \<and> \<not> isValidUrl p (get b ''linkedin_url'')"
  by (simp add: validate_def Let_def)

lemma invalid_answer:
  assumes "req_method req = js ''POST''" and "configured p"
    and "parse_body p (body req) = Some b" and "truthy b"
    and "\<not> truthy (get b ''website_url'')" and "validate p b \<noteq> []"
  shows "handler p req = respond req 400 (JsonErrorDetails ''Validation failed'' (validate p b)) []"
  using assms by (simp add: handler_def verbs_differ)

text \<open>The checks on the body of scenario 2 do not depend on the platform.\<close>

lemma validate_scenario2:
  "validate p scenario2 =
     [''Name is required (min 2 characters)'', ''Valid email is required'',
      ''Bio must be at least 50 characters'', ''Vendor type is required'']"
  by (simp add: validate_def scenario2_def get_def js_def trim_def is_ws_def Let_def
      VALID_TYPES_def isValidEmail_def literal_then_def not_space_at_def)

text \<open>
  C6. Validation collects every violation rather than stopping at the first. For every
  body, each of the nine messages is in the list of errors exactly when its rule is
  violated, and a POST request (configuration present, no honeypot value) whose body
  violates some rule is answered 400 with \<^verbatim>\<open>{error: "Validation failed"}\<close> and
  that whole list as details. For the body of scenario 2 the details are the four
  messages on the name, the email, the bio and the vendor type.
\<close>

theorem validation_collects_all:
  "(''Invalid application type'' \<in> set (validate p b) \<longleftrightarrow>
      stripHtml (get b ''type'') \<noteq> js ''talent'' \<and> stripHtml (get b ''type'') \<noteq> js ''vendor'')
   \<and> (''Name is required (min 2 characters)'' \<in> set (validate p b) \<longleftrightarrow>
      length (stripHtml (get b ''name'')) < 2)
   \<and> (''Valid email is required'' \<in> set (validate p b) \<longleftrightarrow>
      \<not> isValidEmail (stripHtml (get b ''email'')))
   \<and> (''Bio must be at least 50 characters'' \<in> set (validate p b) \<longleftrightarrow>
      length (stripHtml (get b ''bio'')) < 50)
   \<and> (''Primary discipline is required'' \<in> set (validate p b) \<longleftrightarrow>
      stripHtml (get b ''type'') = js ''talent''
      \<and> (stripHtml (get b ''primary_discipline'') = []
           \<or> stripHtml (get b ''primary_discipline'') \<notin> set TALENT_DISCIPLINES))
   \<and> (''Vendor type is required'' \<in> set (validate p b) \<longleftrightarrow>
      stripHtml (get b ''type'') = js ''vendor''
      \<and> (stripHtml (get b ''vendor_type'') = []
           \<or> stripHtml (get b ''vendor_type'') \<notin> set VENDOR_TYPES))
   \<and> (''Invalid website URL'' \<in> set (validate p b) \<longleftrightarrow>
      truthy (get b ''website'') \<and> \<not> isValidUrl p (get b ''website''))
   \<and> (''Invalid portfolio URL'' \<in> set (validate p b) \<longleftrightarrow>
      truthy (get b ''portfolio_url'') \<and> \<not> isValidUrl p (get b ''portfolio_url''))
   \<and> (''Invalid LinkedIn URL'' \<in> set (validate p b) \<longleftrightarrow>
      truthy (get b ''linkedin_url'') \<and> \<not> isValidUrl p (get b ''linkedin_url''))
   \<and> (req_method req = js ''POST'' \<and> configured p \<and> parse_body p (body req) = Some b
        \<and> truthy b \<and> \<not> truthy (get b ''website_url'') \<and> validate p b \<noteq> []
      \<longrightarrow> status (handler p req) = 400
        \<and> response (handler p req) = JsonErrorDetails ''Validation failed'' (validate p b)
        \<and> writes (handler p req) = [])
   \<and> (req_method req = js ''POST'' \<and> configured p \<and> parse_body p (body req) = Some scenario2
      \<longrightarrow> status (handler p req) = 400
        \<and> response (handler p req) =
            JsonErrorDetails ''Validation failed''
              [''Name is required (min 2 characters)'', ''Valid email is required'',
               ''Bio must be at least 50 characters'', ''Vendor type is required'']
        \<and> writes (handler p req) = [])"
proof -
  have any: "status (handler p req) = 400
        \<and> response (handler p req) = JsonErrorDetails ''Validation failed'' (validate p b')
        \<and> writes (handler p req) = []"
    if "req_method req = js ''POST''" "configured p" "parse_body p (body req) = Some b'"
      "truthy b'" "\<not> truthy (get b' ''website_url'')" "validate p b' \<noteq> []" for b'
    using invalid_answer [OF that] by (simp add: respond_def)
  have sc: "truthy scenario2" "\<not> truthy (get scenario2 ''website_url'')"
    by (simp_all add: scenario2_def get_def js_def)
  have two: "status (handler p req) = 400
        \<and> response (handler p req) =
            JsonErrorDetails ''Validation failed''
              [''Name is required (min 2 characters)'', ''Valid email is required'',
               ''Bio must be at least 50 characters'', ''Vendor type is required'']
        \<and> writes (handler p req) = []"
    if "req_method req = js ''POST''" "configured p" "parse_body p (body req) = Some scenario2"
    using any [OF that sc] by (simp add: validate_scenario2)
  have ten: "req_method req = js ''POST'' \<and> configured p \<and> parse_body p (body req) = Some b
        \<and> truthy b \<and> \<not> truthy (get b ''website_url'') \<and> validate p b \<noteq> []
      \<longrightarrow> status (handler p req) = 400
        \<and> response (handler p req) = JsonErrorDetails ''Validation failed'' (validate p b)
        \<and> writes (handler p req) = []"
    using any [of b] by blast
  have eleven: "req_method req = js ''POST'' \<and> configured p
        \<and> parse_body p (body req) = Some scenario2
      \<longrightarrow> status (handler p req) = 400
        \<and> response (handler p req) =
            JsonErrorDetails ''Validation failed''
              [''Name is required (min 2 characters)'', ''Valid email is required'',
               ''Bio must be at least 50 characters'', ''Vendor type is required'']
        \<and> writes (handler p req) = []"
    using two by blast
  show ?thesis
    by (intro conjI rule_type rule_name rule_email rule_bio rule_discipline rule_vendor
        rule_website rule_portfolio rule_linkedin ten eleven)
qed

theorem validation_collects_all_witness:
  "req_method (request_with ''POST'' scenario2) = js ''POST''
   \<and> configured example_platform
   \<and> parse_body example_platform (body (request_with ''POST'' scenario2)) = Some scenario2
   \<and> length (stripHtml (get scenario2 ''name'')) < 2
   \<and> ''Name is required (min 2 characters)'' \<in> set (validate example_platform scenario2)
   \<and> ''Valid email is required'' \<in> set (validate example_platform scenario2)
   \<and> ''Bio must be at least 50 characters'' \<in> set (validate example_platform scenario2)
   \<and> ''Vendor type is required'' \<in> set (validate example_platform scenario2)
   \<and> ''Invalid application type'' \<notin> set (validate example_platform scenario2)
   \<and> status (handler example_platform (request_with ''POST'' scenario2)) = 400
   \<and> response (handler example_platform (request_with ''POST'' scenario2)) =
       JsonErrorDetails ''Validation failed''
         [''Name is required (min 2 characters)'', ''Valid email is required'',
          ''Bio must be at least 50 characters'', ''Vendor type is required'']
   \<and> ''Invalid application type'' \<in> set (validate example_platform (JObj []))
   \<and> ''Name is required (min 2 characters)'' \<in> set (validate example_platform (JObj []))
   \<and> ''Valid email is required'' \<in> set (validate example_platform (JObj []))
   \<and> ''Bio must be at least 50 characters'' \<in> set (validate example_platform (JObj []))"
proof -
  let ?r = "request_with ''POST'' scenario2"
  note T = validation_collects_all [of example_platform scenario2 ?r]
  note E = validation_collects_all [of example_platform "JObj []" ?r]
  have 1: "req_method ?r = js ''POST''"
    by (simp add: request_with_def)
  have 2: "parse_body example_platform (body ?r) = Some scenario2"
    by (simp add: request_with_def parse_body_def scenario2_def)
  have f: "stripHtml (get scenario2 ''type'') = js ''vendor''"
    "stripHtml (get scenario2 ''name'') = js ''A''"
    "stripHtml (get scenario2 ''email'') = js ''bad-email''"
    "stripHtml (get scenario2 ''bio'') = js ''short''"
    "stripHtml (get scenario2 ''vendor_type'') = []"
    by (simp_all add: scenario2_def get_def js_def trim_def is_ws_def)
  have g: "js ''vendor'' \<noteq> js ''talent''" "length (js ''A'') < 2" "length (js ''short'') < 50"
    "\<not> isValidEmail (js ''bad-email'')"
    by (simp_all add: js_def isValidEmail_def literal_then_def not_space_at_def is_ws_def)
  have e: "stripHtml (get (JObj []) k) = []" for k
    by (simp add: get_def)
  have h: "[] \<noteq> js ''talent''" "[] \<noteq> js ''vendor''" "\<not> isValidEmail []"
    by (simp_all add: js_def isValidEmail_def)
  have s0: "length (stripHtml (get scenario2 ''name'')) < 2"
    using f(2) g(2) by simp
  have s1: "''Invalid application type'' \<notin> set (validate example_platform scenario2)"
    using T [THEN conjunct1] f(1) by simp
  have s2: "''Name is required (min 2 characters)'' \<in> set (validate example_platform scenario2)"
    using T [THEN conjunct2, THEN conjunct1] s0 by simp
  have s3: "''Valid email is required'' \<in> set (validate example_platform scenario2)"
    using T [THEN conjunct2, THEN conjunct2, THEN conjunct1] f(3) g(4) by simp
  have s4: "''Bio must be at least 50 characters'' \<in> set (validate example_platform scenario2)"
    using T [THEN conjunct2, THEN conjunct2, THEN conjunct2, THEN conjunct1] f(4) g(3) by simp
  have s5: "''Vendor type is required'' \<in> set (validate example_platform scenario2)"
    using T [THEN conjunct2, THEN conjunct2, THEN conjunct2, THEN conjunct2, THEN conjunct2,
        THEN conjunct1] f(1) f(5) by simp
  have s6: "status (handler example_platform ?r) = 400
      \<and> response (handler example_platform ?r) =
          JsonErrorDetails ''Validation failed''
            [''Name is required (min 2 characters)'', ''Valid email is required'',
             ''Bio must be at least 50 characters'', ''Vendor type is required'']"
    using T [THEN conjunct2, THEN conjunct2, THEN conjunct2, THEN conjunct2, THEN conjunct2,
        THEN conjunct2, THEN conjunct2, THEN conjunct2, THEN conjunct2, THEN conjunct2]
      1 2 configured_example by simp
  have e1: "''Invalid application type'' \<in> set (validate example_platform (JObj []))"
    using E [THEN conjunct1] e h by simp
  have e2: "''Name is required (min 2 characters)'' \<in> set (validate example_platform (JObj []))"
    using E [THEN conjunct2, THEN conjunct1] e by simp
  have e3: "''Valid email is required'' \<in> set (validate example_platform (JObj []))"
    using E [THEN conjunct2, THEN conjunct2, THEN conjunct1] e h by simp
  have e4: "''Bio must be at least 50 characters'' \<in> set (validate example_platform (JObj []))"
    using E [THEN conjunct2, THEN conjunct2, THEN conjunct2, THEN conjunct1] e by simp
  from 1 2 configured_example s0 s1 s2 s3 s4 s5 s6 e1 e2 e3 e4 show ?thesis
    by (intro conjI) (elim conjE, assumption)+
qed

section \<open>Accepted applications\<close>

text \<open>What evaluating the checks on a concrete body unfolds.\<close>

lemmas run_checks = validate_def get_def js_def trim_def is_ws_def Let_def
  VALID_TYPES_def TALENT_DISCIPLINES_def VENDOR_TYPES_def
  isValidEmail_def literal_then_def not_space_at_def

lemma validate_applicant: "validate p (JObj applicant) = []"
  by (simp add: applicant_def run_checks)

lemma talent_differs: "js ''talent'' \<noteq> js ''vendor''"
  by (simp add: js_def)

lemma Number_undefined: "Number f JUndefined = Some NaN"
  by (simp add: Number_def)

text \<open>The path of the handler that ends in a successful write.\<close>

lemma handler_accepts:
  assumes "req_method req = js ''POST''" and "configured p"
    and "parse_body p (body req) = Some b" and "truthy b"
    and "\<not> truthy (get b ''website_url'')" and "validate p b = []"
    and "make_row p req b = Some row" and "fetch p (the_write p row) = ResponseOk"
  shows "handler p req = respond req 200 JsonOk [the_write p row]"
  using assms by (simp add: handler_def verbs_differ)

lemma make_row_applicant:
  "make_row p req (JObj applicant) =
     Some (JObj (base_row req (JObj applicant) @
       [(js ''primary_discipline'', JStr (js ''Photography'')),
        (js ''disciplines'', JNull),
        (js ''years_experience'', JNull)]))"
proof -
  have t: "stripHtml (get (JObj applicant) ''type'') = js ''talent''"
    by (simp add: applicant_def get_def js_def trim_def is_ws_def)
  have d: "stripHtml (get (JObj applicant) ''primary_discipline'') = js ''Photography''"
    by (simp add: applicant_def get_def js_def trim_def is_ws_def)
  have u: "get (JObj applicant) ''years_experience'' = JUndefined"
    "get (JObj applicant) ''disciplines'' = JUndefined"
    by (simp_all add: applicant_def get_def js_def)
  show ?thesis
    by (simp add: make_row_def talent_row_def t d u Number_undefined num_truthy_def
        strip_each_def talent_differs)
qed

lemma applicant_accepted:
  assumes "req_method req = js ''POST''" and "body req = JObj applicant"
  shows "handler example_platform req =
     respond req 200 JsonOk
       [the_write example_platform (JObj (base_row req (JObj applicant) @
         [(js ''primary_discipline'', JStr (js ''Photography'')),
          (js ''disciplines'', JNull),
          (js ''years_experience'', JNull)]))]"
proof (rule handler_accepts [OF assms(1) configured_example])
  show "parse_body example_platform (body req) = Some (JObj applicant)"
    using assms(2) by (simp add: parse_body_def)
  show "truthy (JObj applicant)" by simp
  show "\<not> truthy (get (JObj applicant) ''website_url'')"
    by (simp add: applicant_def get_def js_def)
  show "validate example_platform (JObj applicant) = []" by (rule validate_applicant)
  show "make_row example_platform req (JObj applicant) =
     Some (JObj (base_row req (JObj applicant) @
       [(js ''primary_discipline'', JStr (js ''Photography'')),
        (js ''disciplines'', JNull),
        (js ''years_experience'', JNull)]))"
    by (rule make_row_applicant)
  show "fetch example_platform (the_write example_platform (JObj (base_row req (JObj applicant) @
       [(js ''primary_discipline'', JStr (js ''Photography'')),
        (js ''disciplines'', JNull),
        (js ''years_experience'', JNull)]))) = ResponseOk"
    by (simp add: example_platform_def)
qed

section \<open>The allow-origin header\<close>








section \<open>The optional URL fields\<close>

text \<open>A string that starts with \<^verbatim>\<open><\<close> has no scheme, so no URL parser accepts it.\<close>

lemma url_without_scheme: "\<not> isValidUrl p (JStr (js ''<b></b>''))"
  by (simp add: isValidUrl_def new_URL_ok_def has_scheme_def url_input_def c0_or_space_def
      tab_or_newline_def ascii_alpha_def js_def)

lemma validate_tagged_website:
  "validate p (JObj ((js ''website'', JStr (js ''<b></b>'')) # applicant))
   = [''Invalid website URL'']"
proof -
  have "\<not> isValidUrl p (JStr [60, 98, 62, 60, 47, 98, 62])"
    using url_without_scheme [of p] by (simp add: js_def)
  then show ?thesis
    by (simp add: applicant_def run_checks)
qed

text \<open>
  C3 does not hold of the handler: lines 91 to 93 test and parse the raw property, not
  the sanitized one. The website \<^verbatim>\<open><b></b>\<close> is empty after sanitization, and the
  application is valid without it; posted with it, the application is answered 400 with
  the single message on the website, and nothing is written.
\<close>

theorem website_checked_unsanitized:
  assumes "req_method req = js ''POST''" and "configured p"
    and "parse_body p (body req) = Some tagged_website"
  shows "stripHtml (get tagged_website ''website'') = []
       \<and> validate p (JObj applicant) = []
       \<and> status (handler p req) = 400
       \<and> response (handler p req) = JsonErrorDetails ''Validation failed'' [''Invalid website URL'']
       \<and> writes (handler p req) = []"
proof -
  have 1: "stripHtml (get tagged_website ''website'') = []"
    by (simp add: tagged_website_def get_def js_def trim_def)
  have 2: "truthy tagged_website" "\<not> truthy (get tagged_website ''website_url'')"
    by (simp_all add: tagged_website_def applicant_def get_def js_def)
  have 3: "validate p tagged_website = [''Invalid website URL'']"
    unfolding tagged_website_def by (rule validate_tagged_website)
  from assms 2 3 have "handler p req
      = respond req 400 (JsonErrorDetails ''Validation failed'' [''Invalid website URL'']) []"
    by (simp add: handler_def verbs_differ)
  with 1 show ?thesis by (simp add: respond_def validate_applicant)
qed

theorem website_checked_unsanitized_witness:
  "req_method (request_with ''POST'' tagged_website) = js ''POST''
   \<and> configured example_platform
   \<and> parse_body example_platform (body (request_with ''POST'' tagged_website)) = Some tagged_website
   \<and> stripHtml (get tagged_website ''website'') = []
   \<and> status (handler example_platform (request_with ''POST'' tagged_website)) = 400
   \<and> response (handler example_platform (request_with ''POST'' tagged_website))
       = JsonErrorDetails ''Validation failed'' [''Invalid website URL'']"
proof -
  have 1: "req_method (request_with ''POST'' tagged_website) = js ''POST''"
    by (simp add: request_with_def)
  have 2: "parse_body example_platform (body (request_with ''POST'' tagged_website))
           = Some tagged_website"
    by (simp add: request_with_def parse_body_def tagged_website_def)
  from website_checked_unsanitized [OF 1 configured_example 2] 1 2 configured_example
  show ?thesis by simp
qed

section \<open>The forwarded record\<close>

lemma writes_come_from_rows:
  assumes "w \<in> set (writes (handler p req))"
  shows "\<exists>b row. validate p b = [] \<and> make_row p req b = Some row \<and> w = the_write p row"
  using assms
  by (auto simp: handler_def respond_def split: if_splits option.splits fetch_outcome.splits)

lemma valid_type:
  assumes "validate p b = []"
  shows "stripHtml (get b ''type'') = js ''talent'' \<or> stripHtml (get b ''type'') = js ''vendor''"
proof (rule ccontr)
  assume "\<not> ?thesis"
  then have "stripHtml (get b ''type'') \<notin> set VALID_TYPES"
    by (simp add: VALID_TYPES_def)
  then have "''Invalid application type'' \<in> set (validate p b)"
    by (simp add: validate_def Let_def)
  with assms show False by simp
qed

lemma strings_or_null:
  "s \<in> set (strings_of (or_null (stripHtml v))) \<Longrightarrow> \<not> has_tag s \<and> trimmed s"
  by (auto simp: or_null_def stripHtml_clean split: if_splits)

lemma strings_of_list_JStr: "strings_of_list (map JStr ys) = ys"
  by (induction ys) auto

lemma strings_strip_each:
  assumes "s \<in> set (strings_of (strip_each v))"
  shows "\<not> has_tag s \<and> trimmed s"
proof (cases v)
  case (JArr xs)
  with assms have "s \<in> set (map stripHtml xs)"
    by (simp add: strip_each_def strings_of_list_JStr)
  then obtain x where "s = stripHtml x" by auto
  then show ?thesis by (simp add: stripHtml_clean)
qed (use assms in \<open>simp_all add: strip_each_def\<close>)

lemma base_row_clean:
  assumes "(k, v) \<in> set (base_row req b)"
    and "k \<noteq> js ''ip_address''" and "k \<noteq> js ''user_agent''"
    and "s \<in> set (strings_of v)"
  shows "\<not> has_tag s \<and> trimmed s"
  using assms by (auto simp: base_row_def stripHtml_clean dest: strings_or_null)

lemma talent_row_clean:
  assumes "talent_row p b = Some t" and "(k, v) \<in> set t" and "s \<in> set (strings_of v)"
  shows "\<not> has_tag s \<and> trimmed s"
  using assms
  by (auto simp: talent_row_def stripHtml_clean split: option.splits if_splits
      dest: strings_strip_each)

lemma vendor_row_clean:
  assumes "(k, v) \<in> set (vendor_row b)" and "s \<in> set (strings_of v)"
  shows "\<not> has_tag s \<and> trimmed s"
  using assms by (auto simp: vendor_row_def stripHtml_clean dest: strings_strip_each)

lemma make_row_parts:
  assumes "make_row p req b = Some row"
  shows "\<exists>t u. row = JObj (base_row req b @ t @ u)
      \<and> (t = [] \<or> talent_row p b = Some t) \<and> (u = [] \<or> u = vendor_row b)"
  using assms by (auto simp: make_row_def Let_def split: option.splits if_splits)

lemma base_row_lookup:
  "map_of (base_row req b @ rest) (js ''type'') = Some (JStr (stripHtml (get b ''type'')))"
  "map_of (base_row req b @ rest) (js ''ip_address'') =
     Some (header_or_null (h_x_forwarded_for req) (header_or_null (h_x_real_ip req) JNull))"
  "map_of (base_row req b @ rest) (js ''user_agent'') = Some (header_or_null (h_user_agent req) JNull)"
  by (simp_all add: base_row_def js_def)

lemma row_of_the_write: "row_of (the_write p (JObj kvs)) = kvs"
  by (simp add: row_of_def the_write_def)

lemma tagged_agent_write:
  "writes (handler example_platform tagged_agent) =
     [the_write example_platform (JObj (base_row tagged_agent (JObj applicant) @
         [(js ''primary_discipline'', JStr (js ''Photography'')),
          (js ''disciplines'', JNull),
          (js ''years_experience'', JNull)]))]"
proof -
  have "handler example_platform tagged_agent =
     respond tagged_agent 200 JsonOk
       [the_write example_platform (JObj (base_row tagged_agent (JObj applicant) @
         [(js ''primary_discipline'', JStr (js ''Photography'')),
          (js ''disciplines'', JNull),
          (js ''years_experience'', JNull)]))]"
    by (rule applicant_accepted) (simp_all add: tagged_agent_def request_with_def)
  then show ?thesis by (simp add: respond_def)
qed

lemma tagged_agent_header:
  "header_or_null (h_user_agent tagged_agent) JNull = JStr (js ''<b>bot</b>'')"
  by (simp add: tagged_agent_def header_or_null_def js_def)

text \<open>
  C9, as stated, fails: \<^verbatim>\<open>user_agent\<close> (and \<^verbatim>\<open>ip_address\<close>) are string fields
  of the record and are copied from the request headers as they are, markup included.
\<close>

theorem forwarded_record_counterexample:
  "length (writes (handler example_platform tagged_agent)) = 1
   \<and> field_of (hd (writes (handler example_platform tagged_agent))) ''user_agent''
       = Some (JStr (js ''<b>bot</b>''))
   \<and> js ''<b>bot</b>'' \<in> set (strings_of (w_row (hd (writes (handler example_platform tagged_agent)))))
   \<and> has_tag (js ''<b>bot</b>'')"
proof -
  let ?w = "hd (writes (handler example_platform tagged_agent))"
  have 1: "length (writes (handler example_platform tagged_agent)) = 1"
    by (simp add: tagged_agent_write)
  have 2: "field_of ?w ''user_agent'' = Some (JStr (js ''<b>bot</b>''))"
    by (simp only: tagged_agent_write list.sel field_of_def row_of_the_write base_row_lookup
        tagged_agent_header)
  have "js ''<b>bot</b>'' \<in> set (strings_of_props (base_row tagged_agent (JObj applicant) @ rest))"
    for rest
    by (simp add: base_row_def tagged_agent_header)
  then have 3: "js ''<b>bot</b>'' \<in> set (strings_of (w_row ?w))"
    by (simp add: tagged_agent_write the_write_def)
  have 4: "has_tag (js ''<b>bot</b>'')"
    by (simp add: js_def)
  from 1 2 3 4 show ?thesis by blast
qed

text \<open>
  C9, amended. In every record forwarded to the persistence API, every string taken
  from the request body, that is every string field other than \<^verbatim>\<open>ip_address\<close> and
  \<^verbatim>\<open>user_agent\<close>, has had markup tags stripped and been trimmed, and the field
  \<^verbatim>\<open>type\<close> is \<^verbatim>\<open>talent\<close> or \<^verbatim>\<open>vendor\<close>; \<^verbatim>\<open>ip_address\<close> and
  \<^verbatim>\<open>user_agent\<close> are the request's headers, unchanged, or null.
\<close>

theorem forwarded_record_sanitized:
  assumes "w \<in> set (writes (handler p req))"
  shows "w_row w = JObj (row_of w)
       \<and> (field_of w ''type'' = Some (JStr (js ''talent''))
           \<or> field_of w ''type'' = Some (JStr (js ''vendor'')))
       \<and> (\<forall>(k, v) \<in> set (row_of w).
             k \<noteq> js ''ip_address'' \<and> k \<noteq> js ''user_agent''
             \<longrightarrow> (\<forall>s \<in> set (strings_of v). \<not> has_tag s \<and> trimmed s))
       \<and> field_of w ''ip_address'' =
           Some (header_or_null (h_x_forwarded_for req) (header_or_null (h_x_real_ip req) JNull))
       \<and> field_of w ''user_agent'' = Some (header_or_null (h_user_agent req) JNull)"
proof -
  from assms obtain b row where v: "validate p b = []"
    and m: "make_row p req b = Some row" and w: "w = the_write p row"
    using writes_come_from_rows by blast
  from m obtain t u where row: "row = JObj (base_row req b @ t @ u)"
    and t: "t = [] \<or> talent_row p b = Some t" and u: "u = [] \<or> u = vendor_row b"
    using make_row_parts by blast
  have r: "row_of w = base_row req b @ t @ u" "w_row w = JObj (row_of w)"
    using w row by (simp_all add: row_of_def the_write_def)
  have ty: "field_of w ''type'' = Some (JStr (stripHtml (get b ''type'')))"
    using r by (simp only: field_of_def base_row_lookup)
  have clean: "\<not> has_tag s \<and> trimmed s"
    if "(k, x) \<in> set (row_of w)" "k \<noteq> js ''ip_address''" "k \<noteq> js ''user_agent''"
      "s \<in> set (strings_of x)" for k x s
  proof -
    from that(1) r consider "(k, x) \<in> set (base_row req b)" | "(k, x) \<in> set t" | "(k, x) \<in> set u"
      by auto
    then show ?thesis
    proof cases
      case 1
      with that show ?thesis using base_row_clean by blast
    next
      case 2
      with t have "talent_row p b = Some t" by auto
      with 2 that show ?thesis using talent_row_clean by blast
    next
      case 3
      with u have "(k, x) \<in> set (vendor_row b)" by auto
      with that show ?thesis using vendor_row_clean by blast
    qed
  qed
  have hdrs: "field_of w ''ip_address'' =
           Some (header_or_null (h_x_forwarded_for req) (header_or_null (h_x_real_ip req) JNull))"
    "field_of w ''user_agent'' = Some (header_or_null (h_user_agent req) JNull)"
    using r by (simp_all only: field_of_def base_row_lookup)
  from valid_type [OF v] ty r(2) hdrs clean show ?thesis by auto
qed

theorem forwarded_record_sanitized_witness:
  "hd (writes (handler example_platform tagged_agent)) \<in> set (writes (handler example_platform tagged_agent))
   \<and> field_of (hd (writes (handler example_platform tagged_agent))) ''type'' = Some (JStr (js ''talent''))
   \<and> field_of (hd (writes (handler example_platform tagged_agent))) ''user_agent''
       = Some (JStr (js ''<b>bot</b>''))"
proof -
  let ?w = "hd (writes (handler example_platform tagged_agent))"
  have 1: "?w \<in> set (writes (handler example_platform tagged_agent))"
    by (simp add: tagged_agent_write)
  have "field_of ?w ''type'' = Some (JStr (stripHtml (get (JObj applicant) ''type'')))"
    by (simp only: tagged_agent_write list.sel field_of_def row_of_the_write base_row_lookup)
  then have ty: "field_of ?w ''type'' \<noteq> Some (JStr (js ''vendor''))"
    by (simp add: applicant_def get_def js_def trim_def is_ws_def)
  from forwarded_record_sanitized [OF 1] 1 ty show ?thesis
    by (simp add: tagged_agent_header)
qed






end
